theory Spec2Isabelle
  imports Complex_Main
begin

section \<open>Numbers, decimals and errors\<close>

text \<open>
  JavaScript numbers and PostgreSQL decimals are modelled as exact rationals; token counts
  are integers. \<open>NaN\<close> is not a value of the model: where the source tests for it
  (\<open>isNaN\<close> after \<open>parseFloat\<close>) the parse result is an option.

  The ceiling written in the source three times, \<open>999999.9999\<close>.
\<close>

definition MAX_BALANCE :: rat where
  "MAX_BALANCE = 9999999999 / 10000"

text \<open>
  \<open>CAST($1 AS DECIMAL(16,4))\<close>: PostgreSQL rounds the value to four decimals, ties away
  from zero, and raises \<open>numeric field overflow\<close> when the rounded value needs more than
  twelve digits before the point. A \<open>DECIMAL(16,4)\<close> column refuses the same values.
\<close>

definition round4 :: "rat \<Rightarrow> rat" where
  "round4 x =
     (if 0 \<le> x then of_int \<lfloor>x * 10000 + 1 / 2\<rfloor> / 10000
      else - (of_int \<lfloor>- x * 10000 + 1 / 2\<rfloor> / 10000))"

definition fits_16_4 :: "rat \<Rightarrow> bool" where
  "fits_16_4 x = (\<bar>x\<bar> < 1000000000000)"

definition CAST_DECIMAL_16_4 :: "rat \<Rightarrow> rat option" where
  "CAST_DECIMAL_16_4 x = (let r = round4 x in if fits_16_4 r then Some r else None)"

text \<open>
  Every \<open>throw\<close> of the source and every exception a statement can raise is a value.
  The source throws \<open>Error\<close> objects told apart by their message only.
\<close>

datatype error =
    RequestError            \<comment> \<open>TypeError while reading the request body\<close>
  | PriceNotFound           \<comment> \<open>"Fail to fetch price info of model ..."\<close>
  | TokenizerError          \<comment> \<open>an exception of \<open>encode\<close>\<close>
  | UserDoesNotExist        \<comment> \<open>"User does not exist"\<close>
  | BalanceExceedsMaximum   \<comment> \<open>"Balance exceeds maximum allowed value"\<close>
  | UserNotFound            \<comment> \<open>"User not found"\<close>
  | DefaultBalanceExceedsMaximum  \<comment> \<open>"Default balance exceeds maximum allowed value"\<close>
  | DatabaseError           \<comment> \<open>a statement refused by the store\<close>
  | Unauthorized            \<comment> \<open>the response of \<open>verifyApiToken\<close>\<close>

text \<open>
  An environment variable as the platform's parser reads it: unset or empty (the source's
  \<open>process.env.X || dflt\<close> then takes the default text), a text that \<open>parseInt\<close> or
  \<open>parseFloat\<close> reads as \<open>NaN\<close>, or a text read as a number.
\<close>

datatype 'a env_value = Missing | NonNumeric | Numeric 'a

record env =
  DEFAULT_MODEL_INPUT_PRICE :: "rat env_value"
  DEFAULT_MODEL_OUTPUT_PRICE :: "rat env_value"
  INIT_BALANCE :: "rat env_value"
  BALANCE_RESET_DAY :: "int env_value"

text \<open>\<open>parseFloat(process.env.X || dflt)\<close> and \<open>parseInt(process.env.X || dflt, 10)\<close>;
  \<open>None\<close> is \<open>NaN\<close>.\<close>

definition parse_or :: "'a env_value \<Rightarrow> 'a \<Rightarrow> 'a option" where
  "parse_or v dflt = (case v of Missing \<Rightarrow> Some dflt | NonNumeric \<Rightarrow> None | Numeric x \<Rightarrow> Some x)"

section \<open>The store\<close>

text \<open>
  A row of \<open>users\<close>. The column \<open>deleted\<close> may be \<open>NULL\<close>, which the bulk reset
  tests for. The column \<open>default_balance\<close> is written by every insert of the code and is
  taken to hold a number.
\<close>

record user_row =
  u_id :: string
  u_email :: string
  u_name :: string
  u_role :: string
  u_balance :: rat
  u_default_balance :: rat
  u_deleted :: "bool option"

record ModelPrice =
  p_id :: string
  p_name :: string
  input_price :: rat
  output_price :: rat
  per_msg_price :: rat

record usage_record =
  user_id :: string
  nickname :: string
  model_name :: string
  input_tokens :: int
  output_tokens :: int
  cost :: rat
  balance_after :: rat

text \<open>A calendar date as the local-time getters of a JavaScript \<open>Date\<close> give it:
  \<open>getFullYear\<close>, \<open>getMonth\<close> (0 to 11) and \<open>getDate\<close> (1 to 31). The code reads
  nothing else of a \<open>Date\<close>.\<close>

record date =
  year :: int
  month :: int
  day :: int

text \<open>
  The tables the code reads and writes. \<open>last_balance_reset\<close> is the row of
  \<open>system_settings\<close> with that key, absent until the first bulk reset.
\<close>

record db =
  users :: "user_row list"
  user_usage_records :: "usage_record list"
  model_prices :: "ModelPrice list"
  last_balance_reset :: "date option"

text \<open>
  Modelled from the spec: \<open>query\<close> of \<open>lib/db/client\<close> is not among the sources. Section 6
  of the specification gives the store as parameterised query execution with transaction
  begin, commit and rollback, so a session is the current tables and, while a transaction
  is open, the tables as they were at \<open>BEGIN\<close>. \<open>ROLLBACK\<close> outside a transaction changes
  nothing.
\<close>

type_synonym session = "db \<times> db option"

definition query_BEGIN :: "session \<Rightarrow> session" where
  "query_BEGIN s = (case snd s of None \<Rightarrow> (fst s, Some (fst s)) | Some _ \<Rightarrow> s)"

definition query_COMMIT :: "session \<Rightarrow> session" where
  "query_COMMIT s = (fst s, None)"

definition query_ROLLBACK :: "session \<Rightarrow> session" where
  "query_ROLLBACK s = (case snd s of None \<Rightarrow> s | Some saved \<Rightarrow> (saved, None))"

section \<open>Price resolution (outlet route, \<open>getModelPrice\<close>)\<close>

definition getModelPrice :: "env \<Rightarrow> db \<Rightarrow> string \<Rightarrow> ModelPrice option" where
  "getModelPrice e d modelId =
     (case filter (\<lambda>row. p_id row = modelId) (model_prices d) of
        row # _ \<Rightarrow> Some row
      | [] \<Rightarrow>
         (case (parse_or (DEFAULT_MODEL_INPUT_PRICE e) 60,
                parse_or (DEFAULT_MODEL_OUTPUT_PRICE e) 60) of
            (Some defaultInputPrice, Some defaultOutputPrice) \<Rightarrow>
              if defaultInputPrice < 0 \<or> defaultOutputPrice < 0 then None
              else Some \<lparr>p_id = modelId, p_name = modelId,
                         input_price = defaultInputPrice,
                         output_price = defaultOutputPrice,
                         per_msg_price = - 1\<rparr>
          | _ \<Rightarrow> None))"

section \<open>Token counts (outlet route, lines 87 to 135)\<close>

record usage_stats =
  prompt_tokens :: "int option"
  completion_tokens :: "int option"

record message =
  role :: string
  content :: "string option"
  usage :: "usage_stats option"

datatype token_source = LLM_USAGE | ESTIMATION | TOKENIZER

text \<open>
  The guard \<open>lastMessage.usage && usage.prompt_tokens && usage.completion_tokens\<close> tests
  truthiness: a count that is absent and a count that is \<open>0\<close> both fail it.
\<close>

definition reported_usage :: "message \<Rightarrow> (int \<times> int) option" where
  "reported_usage m =
     (case usage m of
        None \<Rightarrow> None
      | Some u \<Rightarrow>
         (case (prompt_tokens u, completion_tokens u) of
            (Some p, Some c) \<Rightarrow> if p \<noteq> 0 \<and> c \<noteq> 0 then Some (p, c) else None
          | _ \<Rightarrow> None))"

text \<open>\<open>msg.content?.length || 0\<close>\<close>

definition content_length :: "message \<Rightarrow> nat" where
  "content_length m = (case content m of None \<Rightarrow> 0 | Some s \<Rightarrow> length s)"

definition CHAR_LIMIT_FOR_ESTIMATION :: nat where
  "CHAR_LIMIT_FOR_ESTIMATION = 50000"

definition CHARS_PER_TOKEN :: nat where
  "CHARS_PER_TOKEN = 4"

text \<open>\<open>Math.ceil(chars / CHARS_PER_TOKEN)\<close>\<close>

definition estimate_tokens :: "nat \<Rightarrow> int" where
  "estimate_tokens chars = \<lceil>(of_nat chars :: rat) / of_nat CHARS_PER_TOKEN\<rceil>"

text \<open>
  The tokenizer \<open>encode\<close> of the package \<open>gpt-tokenizer\<close> is a parameter: it gives the
  tokens of a content, or \<open>None\<close> where it throws. The \<open>reduce\<close> over the messages adds
  the lengths from the left and stops at the first exception.
\<close>

type_synonym tokenizer = "string option \<Rightarrow> nat list option"

fun sum_tokens :: "tokenizer \<Rightarrow> nat \<Rightarrow> message list \<Rightarrow> nat option" where
  "sum_tokens encode acc [] = Some acc"
| "sum_tokens encode acc (msg # msgs) =
     (case encode (content msg) of
        None \<Rightarrow> None
      | Some ts \<Rightarrow> sum_tokens encode (acc + length ts) msgs)"

definition deriveTokens ::
  "tokenizer \<Rightarrow> message list \<Rightarrow> error + (int \<times> int \<times> token_source)" where
  "deriveTokens encode messages =
     (if messages = [] then Inl RequestError
      else
        let lastMessage = last messages in
        case reported_usage lastMessage of
          Some (p, c) \<Rightarrow> Inr (p, c, LLM_USAGE)
        | None \<Rightarrow>
           (let totalChars = foldl (\<lambda>sum msg. sum + content_length msg) 0 messages;
                outputChars = content_length lastMessage
            in if totalChars > CHAR_LIMIT_FOR_ESTIMATION then
                 let totalTokens = estimate_tokens totalChars;
                     outputTokens = estimate_tokens outputChars
                 in Inr (totalTokens - outputTokens, outputTokens, ESTIMATION)
               else
                 (case encode (content lastMessage) of
                    None \<Rightarrow> Inl TokenizerError
                  | Some ts \<Rightarrow>
                     (case sum_tokens encode 0 messages of
                        None \<Rightarrow> Inl TokenizerError
                      | Some totalTokens \<Rightarrow>
                          Inr (int totalTokens - int (length ts), int (length ts),
                               TOKENIZER)))))"

section \<open>Cost (outlet route, lines 137 to 154)\<close>

definition totalCost_of :: "ModelPrice \<Rightarrow> int \<Rightarrow> int \<Rightarrow> rat" where
  "totalCost_of modelPrice inputTokens outputTokens =
     (if outputTokens = 0 then 0
      else if per_msg_price modelPrice \<ge> 0 then per_msg_price modelPrice
      else
        let inputCost = (of_int inputTokens / 1000000) * input_price modelPrice;
            outputCost = (of_int outputTokens / 1000000) * output_price modelPrice
        in inputCost + outputCost)"

section \<open>The charge (outlet route, \<open>POST\<close>)\<close>

record request =
  model :: string
  messages :: "message list"
  req_user_id :: string
  req_user_name :: "string option"

record charge_result =
  r_inputTokens :: int
  r_outputTokens :: int
  r_totalCost :: rat
  r_newBalance :: rat

datatype response = Success charge_result | Failure error

text \<open>
  The statement \<open>UPDATE users SET balance = LEAST(balance - CAST($1 AS DECIMAL(16,4)),
  999999.9999) WHERE id = $2 RETURNING balance\<close>. It gives the new balance of every row it
  touched; a statement that raises changes nothing.
\<close>

definition charged_balance :: "rat \<Rightarrow> user_row \<Rightarrow> rat" where
  "charged_balance c u = min (u_balance u - c) MAX_BALANCE"

definition update_charge :: "rat \<Rightarrow> string \<Rightarrow> db \<Rightarrow> error + (db \<times> rat list)" where
  "update_charge actualCost userId d =
     (case CAST_DECIMAL_16_4 actualCost of
        None \<Rightarrow> Inl DatabaseError
      | Some c \<Rightarrow>
          let hit = filter (\<lambda>u. u_id u = userId) (users d) in
          if list_all (\<lambda>u. fits_16_4 (charged_balance c u)) hit then
            Inr (d\<lparr>users :=
                     map (\<lambda>u. if u_id u = userId then u\<lparr>u_balance := charged_balance c u\<rparr>
                               else u) (users d)\<rparr>,
                 map (charged_balance c) hit)
          else Inl DatabaseError)"

text \<open>
  The \<open>INSERT\<close> into \<open>user_usage_records\<close>, a table no source file creates; the
  statement is taken to succeed and to store the values it is given.
\<close>

definition insert_usage_record :: "usage_record \<Rightarrow> db \<Rightarrow> db" where
  "insert_usage_record r d = d\<lparr>user_usage_records := user_usage_records d @ [r]\<rparr>"

text \<open>The \<open>catch\<close> block: \<open>ROLLBACK\<close>, then the error response with status 500.\<close>

definition catch_error :: "session \<Rightarrow> error \<Rightarrow> db \<times> response" where
  "catch_error s e = (fst (query_ROLLBACK s), Failure e)"

text \<open>
  \<open>data.user.name || "Unknown User"\<close>: an absent and an empty name give the default.
\<close>

definition userName_of :: "request \<Rightarrow> string" where
  "userName_of data =
     (case req_user_name data of
        None \<Rightarrow> ''Unknown User''
      | Some n \<Rightarrow> if n = [] then ''Unknown User'' else n)"

text \<open>
  The handler. Its parameters are the collaborators that are not part of the sources: the
  tokenizer and \<open>getModelInletCost\<close>. A request whose JSON lacks \<open>body\<close> or \<open>user\<close> is
  \<open>None\<close>: reading it throws before \<open>BEGIN\<close>. An empty \<open>messages\<close> array makes
  \<open>lastMessage\<close> undefined, and reading its \<open>usage\<close> throws.
\<close>

definition POST ::
  "tokenizer \<Rightarrow> (string \<Rightarrow> rat) \<Rightarrow> env \<Rightarrow> db \<Rightarrow> request option \<Rightarrow> db \<times> response" where
  "POST encode getModelInletCost e d req =
     (let s0 = (d, None) in
      case req of
        None \<Rightarrow> catch_error s0 RequestError
      | Some data \<Rightarrow>
         (let modelId = model data;
              userId = req_user_id data;
              userName = userName_of data;
              s1 = query_BEGIN s0
          in
          (case getModelPrice e (fst s1) modelId of
             None \<Rightarrow> catch_error s1 PriceNotFound
           | Some modelPrice \<Rightarrow>
              (case deriveTokens encode (messages data) of
                 Inl err \<Rightarrow> catch_error s1 err
               | Inr (inputTokens, outputTokens, tokenSource) \<Rightarrow>
                  (let totalCost = totalCost_of modelPrice inputTokens outputTokens;
                       inletCost = getModelInletCost modelId;
                       actualCost = totalCost - inletCost
                   in
                   (case update_charge actualCost userId (fst s1) of
                      Inl err \<Rightarrow> catch_error s1 err
                    | Inr (d2, rows) \<Rightarrow>
                       (let s2 = (d2, snd s1) in
                        (case rows of
                           [] \<Rightarrow> catch_error s2 UserDoesNotExist
                         | newBalance # _ \<Rightarrow>
                            (if newBalance > MAX_BALANCE then
                               catch_error s2 BalanceExceedsMaximum
                             else
                               (let s3 = (insert_usage_record
                                            \<lparr>user_id = userId, nickname = userName,
                                             model_name = modelId,
                                             input_tokens = inputTokens,
                                             output_tokens = outputTokens,
                                             cost = totalCost,
                                             balance_after = newBalance\<rparr> (fst s2), snd s2);
                                    s4 = query_COMMIT s3
                                in (fst s4,
                                    Success \<lparr>r_inputTokens = inputTokens,
                                             r_outputTokens = outputTokens,
                                             r_totalCost = totalCost,
                                             r_newBalance = newBalance\<rparr>)))))))))))"

section \<open>The user table (\<open>lib/db/users.ts\<close>)\<close>

text \<open>
  \<open>getOrCreateUser\<close>: the insert stores \<open>INIT_BALANCE\<close> (default text \<open>'0'\<close>) in both
  \<open>balance\<close> and \<open>default_balance\<close>, which the columns round to four decimals; a text that
  is no number is refused by the store. On a conflict of the primary key only \<open>email\<close> and
  \<open>name\<close> of the existing row change. The result is the row written.
\<close>

record user_data =
  ud_id :: string
  ud_email :: string
  ud_name :: string
  ud_role :: "string option"

definition role_of :: "user_data \<Rightarrow> string" where
  "role_of userData =
     (case ud_role userData of None \<Rightarrow> ''user'' | Some r \<Rightarrow> if r = [] then ''user'' else r)"

definition getOrCreateUser :: "env \<Rightarrow> user_data \<Rightarrow> db \<Rightarrow> error + (db \<times> user_row)" where
  "getOrCreateUser e userData d =
     (case parse_or (INIT_BALANCE e) 0 of
        None \<Rightarrow> Inl DatabaseError
      | Some initBalance \<Rightarrow>
         (case CAST_DECIMAL_16_4 initBalance of
            None \<Rightarrow> Inl DatabaseError
          | Some b \<Rightarrow>
             (case filter (\<lambda>u. u_id u = ud_id userData) (users d) of
                [] \<Rightarrow>
                  let row = \<lparr>u_id = ud_id userData, u_email = ud_email userData,
                             u_name = ud_name userData, u_role = role_of userData,
                             u_balance = b, u_default_balance = b,
                             u_deleted = Some False\<rparr>
                  in Inr (d\<lparr>users := users d @ [row]\<rparr>, row)
              | old # _ \<Rightarrow>
                  let upd = (\<lambda>u. u\<lparr>u_email := ud_email userData, u_name := ud_name userData\<rparr>)
                  in Inr (d\<lparr>users := map (\<lambda>u. if u_id u = ud_id userData then upd u else u)
                                          (users d)\<rparr>,
                          upd old))))"

text \<open>
  \<open>updateUserBalance\<close> sets the balance to a given value. The schema migration it runs
  first (\<open>ensureUserTableExists\<close>) changes no row and is left out. The parameter
  \<open>cost\<close> of the source is \<open>cost_v\<close> here, \<open>cost\<close> being a column of the usage
  records.
\<close>

definition updateUserBalance :: "string \<Rightarrow> rat \<Rightarrow> db \<Rightarrow> error + (db \<times> rat)" where
  "updateUserBalance userId cost_v d =
     (if cost_v > MAX_BALANCE then Inl BalanceExceedsMaximum
      else
        case CAST_DECIMAL_16_4 cost_v of
          None \<Rightarrow> Inl DatabaseError
        | Some c \<Rightarrow>
           (case filter (\<lambda>u. u_id u = userId) (users d) of
              [] \<Rightarrow> Inl UserNotFound
            | _ # _ \<Rightarrow>
                Inr (d\<lparr>users :=
                         map (\<lambda>u. if u_id u = userId then u\<lparr>u_balance := min c MAX_BALANCE\<rparr>
                                   else u) (users d)\<rparr>,
                     min c MAX_BALANCE)))"

definition updateUserDefaultBalance :: "string \<Rightarrow> rat \<Rightarrow> db \<Rightarrow> error + (db \<times> rat)" where
  "updateUserDefaultBalance userId defaultBalance d =
     (if defaultBalance > MAX_BALANCE then Inl DefaultBalanceExceedsMaximum
      else
        case CAST_DECIMAL_16_4 defaultBalance of
          None \<Rightarrow> Inl DatabaseError
        | Some c \<Rightarrow>
           (case filter (\<lambda>u. u_id u = userId) (users d) of
              [] \<Rightarrow> Inl UserNotFound
            | _ # _ \<Rightarrow>
                Inr (d\<lparr>users :=
                         map (\<lambda>u. if u_id u = userId
                                   then u\<lparr>u_default_balance := min c MAX_BALANCE\<rparr>
                                   else u) (users d)\<rparr>,
                     min c MAX_BALANCE)))"

definition deleteUser :: "string \<Rightarrow> db \<Rightarrow> db" where
  "deleteUser userId d =
     d\<lparr>users := map (\<lambda>u. if u_id u = userId then u\<lparr>u_deleted := Some True\<rparr> else u)
                    (users d)\<rparr>"

text \<open>\<open>WHERE (deleted = FALSE OR deleted IS NULL)\<close>\<close>

definition not_deleted :: "user_row \<Rightarrow> bool" where
  "not_deleted u = (u_deleted u = Some False \<or> u_deleted u = None)"

definition reset_row :: "user_row \<Rightarrow> user_row" where
  "reset_row u = u\<lparr>u_balance := u_default_balance u\<rparr>"

definition resetAllBalancesToDefault :: "db \<Rightarrow> db \<times> nat" where
  "resetAllBalancesToDefault d =
     (d\<lparr>users := map (\<lambda>u. if not_deleted u then reset_row u else u) (users d)\<rparr>,
      length (filter not_deleted (users d)))"

definition resetUserBalanceToDefault :: "string \<Rightarrow> db \<Rightarrow> error + (db \<times> rat)" where
  "resetUserBalanceToDefault userId d =
     (case filter (\<lambda>u. u_id u = userId) (users d) of
        [] \<Rightarrow> Inl UserNotFound
      | row # _ \<Rightarrow>
          Inr (d\<lparr>users := map (\<lambda>u. if u_id u = userId then reset_row u else u) (users d)\<rparr>,
               u_balance (reset_row row)))"

definition getLastResetDate :: "db \<Rightarrow> date option" where
  "getLastResetDate d = last_balance_reset d"

text \<open>\<open>updateLastResetDate\<close> stores \<open>new Date()\<close>; the clock's reading is a parameter.\<close>

definition updateLastResetDate :: "date \<Rightarrow> db \<Rightarrow> db" where
  "updateLastResetDate now d = d\<lparr>last_balance_reset := Some now\<rparr>"

section \<open>The reset scheduler (\<open>lib/scheduler\<close>)\<close>

text \<open>
  \<open>getConfiguredResetDay\<close> clamps the parsed day into 1 to 31; \<open>Math.max\<close> and
  \<open>Math.min\<close> pass \<open>NaN\<close> on, so a text that is no number gives \<open>NaN\<close> (\<open>None\<close>).
\<close>

definition getConfiguredResetDay :: "env \<Rightarrow> int option" where
  "getConfiguredResetDay e =
     (case parse_or (BALANCE_RESET_DAY e) 1 of
        None \<Rightarrow> None
      | Some d \<Rightarrow> Some (min (max d 1) 31))"

definition isAutoResetEnabled :: "env \<Rightarrow> bool" where
  "isAutoResetEnabled e =
     (case parse_or (BALANCE_RESET_DAY e) 1 of None \<Rightarrow> False | Some d \<Rightarrow> d > 0)"

text \<open>
  The calendar of JavaScript's \<open>Date\<close>: the proleptic Gregorian one. The constructor
  \<open>new Date(y, m, d)\<close> reads a year from 0 to 99 as \<open>1900 + y\<close>, and day 0 of a month
  is the last day of the month before it, so \<open>new Date(y, m + 1, 0)\<close> is the last day
  of month \<open>m\<close> (for December, day 0 of January of the next year).
\<close>

definition leap_year :: "int \<Rightarrow> bool" where
  "leap_year y = (y mod 4 = 0 \<and> (y mod 100 \<noteq> 0 \<or> y mod 400 = 0))"

definition days_in_month :: "int \<Rightarrow> int \<Rightarrow> int" where
  "days_in_month y m =
     (if m = 1 then (if leap_year y then 29 else 28)
      else if m = 3 \<or> m = 5 \<or> m = 8 \<or> m = 10 then 30
      else 31)"

definition constructor_year :: "int \<Rightarrow> int" where
  "constructor_year y = (if 0 \<le> y \<and> y \<le> 99 then 1900 + y else y)"

definition new_Date_day0 :: "int \<Rightarrow> int \<Rightarrow> date" where
  "new_Date_day0 y m =
     (let fy = constructor_year y
      in \<lparr>year = fy, month = m - 1, day = days_in_month fy (m - 1)\<rparr>)"

text \<open>
  The dates a \<open>Date\<close> object of the running system holds: a month from 0 to 11, a day of
  that month, and a year the constructor reads as it is.
\<close>

definition valid_date :: "date \<Rightarrow> bool" where
  "valid_date dt =
     (100 \<le> year dt \<and> 0 \<le> month dt \<and> month dt \<le> 11 \<and>
      1 \<le> day dt \<and> day dt \<le> days_in_month (year dt) (month dt))"

definition getEffectiveResetDay :: "env \<Rightarrow> date \<Rightarrow> int option" where
  "getEffectiveResetDay e dt =
     (let configured = getConfiguredResetDay e;
          lastDayOfMonth = day (new_Date_day0 (year dt) (month dt + 1))
      in case configured of None \<Rightarrow> None | Some c \<Rightarrow> Some (min c lastDayOfMonth))"

text \<open>
  A comparison with \<open>NaN\<close> is false, so an effective day that is \<open>NaN\<close> does not stop
  the check at the first test.
\<close>

definition shouldAutoResetNow :: "env \<Rightarrow> db \<Rightarrow> date \<Rightarrow> bool" where
  "shouldAutoResetNow e d dt =
     (if \<not> isAutoResetEnabled e then False
      else
        let resetDay = getEffectiveResetDay e dt;
            currentDay = day dt
        in if (case resetDay of None \<Rightarrow> False | Some r \<Rightarrow> currentDay < r) then False
           else
            (case getLastResetDate d of
               None \<Rightarrow> True
             | Some lastReset \<Rightarrow>
                 if month lastReset = month dt \<and> year lastReset = year dt then False
                 else True))"

text \<open>One tick of the scheduler; \<open>now\<close> is the clock's reading.\<close>

definition checkAndReset :: "env \<Rightarrow> date \<Rightarrow> db \<Rightarrow> db" where
  "checkAndReset e now d =
     (if shouldAutoResetNow e d now
      then updateLastResetDate now (fst (resetAllBalancesToDefault d))
      else d)"

section \<open>The reset route (\<open>users/reset-balances\<close>, \<open>POST\<close>)\<close>

record reset_body =
  userId :: "string option"
  force :: bool




section \<open>Concrete data for the examples\<close>

definition example_env :: env where
  "example_env = \<lparr>DEFAULT_MODEL_INPUT_PRICE = Missing, DEFAULT_MODEL_OUTPUT_PRICE = Missing,
                   INIT_BALANCE = Missing, BALANCE_RESET_DAY = Missing\<rparr>"

text \<open>A tokenizer that gives one token for each character and throws on a missing content.\<close>

definition char_tokenizer :: tokenizer where
  "char_tokenizer c = (case c of None \<Rightarrow> None | Some s \<Rightarrow> Some (map of_char s))"

definition example_price :: ModelPrice where
  "example_price = \<lparr>p_id = ''m1'', p_name = ''Model One'', input_price = 2,
                     output_price = 6, per_msg_price = - 1\<rparr>"

definition flat_price :: ModelPrice where
  "flat_price = \<lparr>p_id = ''m2'', p_name = ''Model Two'', input_price = 2,
                  output_price = 6, per_msg_price = 0\<rparr>"

definition example_user :: user_row where
  "example_user = \<lparr>u_id = ''u1'', u_email = ''ann@example.org'', u_name = ''Ann'',
                    u_role = ''user'', u_balance = 100, u_default_balance = 50,
                    u_deleted = Some False\<rparr>"

definition rich_user :: user_row where
  "rich_user = \<lparr>u_id = ''u2'', u_email = ''bob@example.org'', u_name = ''Bob'',
                 u_role = ''user'', u_balance = 9999999999 / 10000, u_default_balance = 20,
                 u_deleted = Some False\<rparr>"

definition example_db :: db where
  "example_db = \<lparr>users = [example_user, rich_user], user_usage_records = [],
                  model_prices = [example_price, flat_price], last_balance_reset = None\<rparr>"

definition reported_message :: message where
  "reported_message = \<lparr>role = ''assistant'', content = Some ''ok'',
       usage = Some \<lparr>prompt_tokens = Some 1000, completion_tokens = Some 500\<rparr>\<rparr>"


definition plain_message :: message where
  "plain_message = \<lparr>role = ''user'', content = Some ''hello'', usage = None\<rparr>"

definition example_request :: request where
  "example_request = \<lparr>model = ''m1'', messages = [plain_message, reported_message],
                       req_user_id = ''u1'', req_user_name = Some ''Ann''\<rparr>"

text \<open>A request of the user whose balance stands at the ceiling, for the flat-priced model.\<close>

definition refund_request :: request where
  "refund_request = \<lparr>model = ''m2'', messages = [plain_message, reported_message],
                      req_user_id = ''u2'', req_user_name = Some ''Bob''\<rparr>"

definition unit_inlet :: "string \<Rightarrow> rat" where
  "unit_inlet modelId = 1"


definition tiny_inlet :: "string \<Rightarrow> rat" where
  "tiny_inlet modelId = 1 / 100000"

definition env_with_day :: "int env_value \<Rightarrow> env" where
  "env_with_day v = example_env\<lparr>BALANCE_RESET_DAY := v\<rparr>"

definition env_with_prices :: "rat env_value \<Rightarrow> rat env_value \<Rightarrow> env" where
  "env_with_prices i out =
     example_env\<lparr>DEFAULT_MODEL_INPUT_PRICE := i, DEFAULT_MODEL_OUTPUT_PRICE := out\<rparr>"



definition new_user_data :: user_data where
  "new_user_data = \<lparr>ud_id = ''u3'', ud_email = ''eve@example.org'', ud_name = ''Eve'',
                     ud_role = None\<rparr>"

definition new_user_row :: user_row where
  "new_user_row = \<lparr>u_id = ''u3'', u_email = ''eve@example.org'', u_name = ''Eve'',
                    u_role = ''user'', u_balance = 2000000, u_default_balance = 2000000,
                    u_deleted = Some False\<rparr>"

section \<open>Notions of the specification\<close>



text \<open>The ceiling as a property of the whole user table, and of the configured initial
  balance.\<close>

definition balances_capped :: "db \<Rightarrow> bool" where
  "balances_capped d =
     list_all (\<lambda>u. u_balance u \<le> MAX_BALANCE \<and> u_default_balance u \<le> MAX_BALANCE) (users d)"

definition init_balance_capped :: "env \<Rightarrow> bool" where
  "init_balance_capped e =
     (case INIT_BALANCE e of Numeric x \<Rightarrow> x \<le> MAX_BALANCE | _ \<Rightarrow> True)"

text \<open>A default price the environment gives that cannot be used: a text that is no number,
  or a negative number. An unset variable is read as the text \<open>60\<close>.\<close>

definition unusable_price :: "rat env_value \<Rightarrow> bool" where
  "unusable_price v = (case v of Missing \<Rightarrow> False | NonNumeric \<Rightarrow> True | Numeric x \<Rightarrow> x < 0)"

definition price_setting :: "rat env_value \<Rightarrow> rat" where
  "price_setting v = (case v of Missing \<Rightarrow> 60 | NonNumeric \<Rightarrow> 0 | Numeric x \<Rightarrow> x)"

text \<open>Months counted from year 0, to say "two months ago".\<close>

definition month_index :: "date \<Rightarrow> int" where
  "month_index dt = year dt * 12 + month dt"



section \<open>Facts about the decimals\<close>

lemma round4_error: "\<bar>round4 x - x\<bar> \<le> 1 / 20000"
proof (cases "0 \<le> x")
  case True
  define f :: rat where "f = of_int \<lfloor>x * 10000 + 1 / 2\<rfloor>"
  have lower: "f \<le> x * 10000 + 1 / 2"
    unfolding f_def by (rule of_int_floor_le)
  have upper: "x * 10000 + 1 / 2 < f + 1"
    unfolding f_def by linarith
  have r: "round4 x = f / 10000"
    using True by (simp add: round4_def f_def)
  from lower upper show ?thesis
    unfolding r abs_le_iff by linarith
next
  case False
  define f :: rat where "f = of_int \<lfloor>- x * 10000 + 1 / 2\<rfloor>"
  have lower: "f \<le> - x * 10000 + 1 / 2"
    unfolding f_def by (rule of_int_floor_le)
  have upper: "- x * 10000 + 1 / 2 < f + 1"
    unfolding f_def by linarith
  have r: "round4 x = - (f / 10000)"
    using False by (simp add: round4_def f_def)
  from lower upper show ?thesis
    unfolding r abs_le_iff by linarith
qed

lemma CAST_DECIMAL_16_4_error:
  "CAST_DECIMAL_16_4 x = Some c \<Longrightarrow> \<bar>c - x\<bar> \<le> 1 / 20000"
  using round4_error [of x]
  by (auto simp: CAST_DECIMAL_16_4_def Let_def split: if_splits)

section \<open>The shape of a charge\<close>

lemma POST_Failure_unchanged:
  "POST encode inlet e d req = (d', Failure err) \<Longrightarrow> d' = d"
  by (auto simp: POST_def Let_def catch_error_def query_BEGIN_def query_ROLLBACK_def
      query_COMMIT_def split: option.splits sum.splits list.splits if_splits prod.splits)

lemma POST_Success_cases:
  assumes "POST encode inlet e d req = (d', Success r)"
  obtains data price inTok outTok src d2 nb rest where
    "req = Some data"
    "getModelPrice e d (model data) = Some price"
    "deriveTokens encode (messages data) = Inr (inTok, outTok, src)"
    "update_charge (totalCost_of price inTok outTok - inlet (model data)) (req_user_id data) d
       = Inr (d2, nb # rest)"
    "d' = insert_usage_record
            \<lparr>user_id = req_user_id data, nickname = userName_of data,
             model_name = model data, input_tokens = inTok, output_tokens = outTok,
             cost = totalCost_of price inTok outTok, balance_after = nb\<rparr> d2"
    "r = \<lparr>r_inputTokens = inTok, r_outputTokens = outTok,
          r_totalCost = totalCost_of price inTok outTok, r_newBalance = nb\<rparr>"
  using assms
  by (auto simp: POST_def Let_def catch_error_def query_BEGIN_def query_ROLLBACK_def
      query_COMMIT_def split: option.splits sum.splits list.splits if_splits prod.splits)

lemma update_charge_rows_capped:
  "update_charge c uid d = Inr (d2, rows) \<Longrightarrow> list_all (\<lambda>b. b \<le> MAX_BALANCE) rows"
  by (auto simp: update_charge_def Let_def charged_balance_def list_all_iff
      split: option.splits if_splits)

lemma update_charge_tables:
  assumes "update_charge a uid d = Inr (d2, rows)"
  obtains c where
    "CAST_DECIMAL_16_4 a = Some c"
    "users d2 = map (\<lambda>u. if u_id u = uid then u\<lparr>u_balance := charged_balance c u\<rparr> else u)
                  (users d)"
    "rows = map (charged_balance c) (filter (\<lambda>u. u_id u = uid) (users d))"
    "user_usage_records d2 = user_usage_records d"
    "model_prices d2 = model_prices d"
    "last_balance_reset d2 = last_balance_reset d"
  using assms
  by (auto simp: update_charge_def Let_def split: option.splits if_splits)


lemma refund_charge:
  "POST char_tokenizer unit_inlet example_env example_db (Some refund_request) =
     (example_db
        \<lparr>user_usage_records :=
           [\<lparr>user_id = ''u2'', nickname = ''Bob'', model_name = ''m2'',
             input_tokens = 1000, output_tokens = 500, cost = 0,
             balance_after = 9999999999 / 10000\<rparr>]\<rparr>,
      Success \<lparr>r_inputTokens = 1000, r_outputTokens = 500, r_totalCost = 0,
               r_newBalance = 9999999999 / 10000\<rparr>)"
  by code_simp

section \<open>The claims about the charge\<close>



lemma deriveTokens_errors:
  "deriveTokens encode ms = Inl err \<Longrightarrow> err = RequestError \<or> err = TokenizerError"
  by (auto simp: deriveTokens_def Let_def split: if_splits option.splits prod.splits)

lemma update_charge_errors:
  "update_charge a uid d = Inl err \<Longrightarrow> err = DatabaseError"
  by (auto simp: update_charge_def Let_def split: if_splits option.splits)

lemma POST_Success_record:
  assumes "POST encode inlet e d req = (d', Success r)"
  shows "\<exists>rec. user_usage_records d' = user_usage_records d @ [rec] \<and>
               cost rec = r_totalCost r \<and> balance_after rec = r_newBalance r"
proof -
  from assms obtain data price inTok outTok src d2 nb rest where
    u: "update_charge (totalCost_of price inTok outTok - inlet (model data))
          (req_user_id data) d = Inr (d2, nb # rest)" and
    d': "d' = insert_usage_record
            \<lparr>user_id = req_user_id data, nickname = userName_of data,
             model_name = model data, input_tokens = inTok, output_tokens = outTok,
             cost = totalCost_of price inTok outTok, balance_after = nb\<rparr> d2" and
    r: "r = \<lparr>r_inputTokens = inTok, r_outputTokens = outTok,
          r_totalCost = totalCost_of price inTok outTok, r_newBalance = nb\<rparr>"
    by (rule POST_Success_cases)
  from u have "user_usage_records d2 = user_usage_records d"
    by (rule update_charge_tables)
  then show ?thesis
    by (simp add: d' r insert_usage_record_def)
qed

lemma POST_price_not_found:
  "getModelPrice e d (model data) = None \<Longrightarrow>
     POST encode inlet e d (Some data) = (d, Failure PriceNotFound)"
  by (simp add: POST_def Let_def catch_error_def query_BEGIN_def query_ROLLBACK_def)







lemma POST_never_overflow:
  "POST encode inlet e d req \<noteq> (d', Failure BalanceExceedsMaximum)"
proof
  assume a: "POST encode inlet e d req = (d', Failure BalanceExceedsMaximum)"
  show False
  proof (cases req)
    case None
    with a show False
      by (simp add: POST_def catch_error_def)
  next
    case (Some data)
    show False
    proof (cases "getModelPrice e d (model data)")
      case None
      with a Some show False
        by (simp add: POST_def Let_def catch_error_def query_BEGIN_def)
    next
      case price: (Some modelPrice)
      show False
      proof (cases "deriveTokens encode (messages data)")
        case (Inl err)
        with a Some price deriveTokens_errors [OF Inl] show False
          by (auto simp: POST_def Let_def catch_error_def query_BEGIN_def)
      next
        case (Inr t)
        obtain i o' src where t: "t = (i, o', src)"
          by (cases t) auto
        show False
        proof (cases "update_charge (totalCost_of modelPrice i o' - inlet (model data))
                        (req_user_id data) d")
          case upd: (Inl err)
          with a Some price Inr t update_charge_errors [OF upd] show False
            by (auto simp: POST_def Let_def catch_error_def query_BEGIN_def)
        next
          case upd: (Inr p)
          obtain d2 rows where p: "p = (d2, rows)"
            by (cases p) auto
          from update_charge_rows_capped [OF upd [unfolded p]]
          have "list_all (\<lambda>b. b \<le> MAX_BALANCE) rows" .
          with a Some price Inr t upd p show False
            by (auto simp: POST_def Let_def catch_error_def query_BEGIN_def
                query_COMMIT_def split: list.splits if_splits)
        qed
      qed
    qed
  qed
qed

lemma POST_Success_capped:
  assumes "POST encode inlet e d req = (d', Success r)"
  shows "r_newBalance r \<le> MAX_BALANCE"
proof -
  from assms obtain a uid d2 nb rest where
    u: "update_charge a uid d = Inr (d2, nb # rest)" and nb: "r_newBalance r = nb"
    by (elim POST_Success_cases) auto
  from update_charge_rows_capped [OF u] nb show ?thesis
    by simp
qed

lemma ceiling_update:
  "update_charge (- 1) ''u2'' example_db = Inr (example_db, [9999999999 / 10000])"
  by code_simp

text \<open>
  C9. Whenever the balance update of a charge succeeds, every balance it returns is at
  most 999999.9999, because the statement itself takes the \<open>LEAST\<close> of the new balance
  and that ceiling. So the test \<open>newBalance > 999999.9999\<close> that follows never holds: no
  charge fails with "Balance exceeds maximum allowed value", and every committed charge
  returns a balance within the ceiling.
\<close>

theorem balance_overflow_unreachable:
  "(update_charge a uid d = Inr (d2, rows) \<longrightarrow> list_all (\<lambda>b. b \<le> MAX_BALANCE) rows) \<and>
   POST encode inlet e d req \<noteq> (d', Failure BalanceExceedsMaximum) \<and>
   (POST encode inlet e d req = (d', Success r) \<longrightarrow> r_newBalance r \<le> MAX_BALANCE)"
proof -
  have "update_charge a uid d = Inr (d2, rows) \<longrightarrow> list_all (\<lambda>b. b \<le> MAX_BALANCE) rows"
    by (auto dest: update_charge_rows_capped)
  moreover have "POST encode inlet e d req \<noteq> (d', Failure BalanceExceedsMaximum)"
    by (rule POST_never_overflow)
  moreover have "POST encode inlet e d req = (d', Success r) \<longrightarrow> r_newBalance r \<le> MAX_BALANCE"
    by (auto dest: POST_Success_capped)
  ultimately show ?thesis
    by blast
qed

text \<open>
  A refund of 1 to the user whose balance is 999999.9999: the update succeeds and returns
  the ceiling, not 1000000.9999.
\<close>

theorem balance_overflow_unreachable_witness:
  "update_charge (- 1) ''u2'' example_db = Inr (example_db, [9999999999 / 10000]) \<and>
   list_all (\<lambda>b. b \<le> MAX_BALANCE) [9999999999 / 10000]"
  using balance_overflow_unreachable [of "- 1" "''u2''" example_db example_db
      "[9999999999 / 10000]"] ceiling_update
  by simp

section \<open>The ceiling of the balance\<close>

lemma round4_capped: "x \<le> MAX_BALANCE \<Longrightarrow> round4 x \<le> MAX_BALANCE"
proof (cases "0 \<le> x")
  case True
  assume "x \<le> MAX_BALANCE"
  then have "x * 10000 + 1 / 2 < of_int 10000000000"
    by (simp add: MAX_BALANCE_def)
  then have "\<lfloor>x * 10000 + 1 / 2\<rfloor> < 10000000000"
    by (simp only: floor_less_iff)
  then have "\<lfloor>x * 10000 + 1 / 2\<rfloor> \<le> 9999999999"
    by simp
  then have "(of_int \<lfloor>x * 10000 + 1 / 2\<rfloor> :: rat) \<le> of_int 9999999999"
    by (simp only: of_int_le_iff)
  with True show ?thesis
    by (simp add: round4_def MAX_BALANCE_def)
next
  case False
  define f :: rat where "f = of_int \<lfloor>- x * 10000 + 1 / 2\<rfloor>"
  from False have "0 \<le> \<lfloor>- x * 10000 + 1 / 2\<rfloor>"
    by simp
  then have "0 \<le> f"
    unfolding f_def by (simp only: of_int_0_le_iff)
  moreover have "round4 x = - (f / 10000)"
    using False by (simp add: round4_def f_def)
  ultimately show ?thesis
    by (simp add: MAX_BALANCE_def)
qed

lemma CAST_DECIMAL_16_4_capped:
  "x \<le> MAX_BALANCE \<Longrightarrow> CAST_DECIMAL_16_4 x = Some c \<Longrightarrow> c \<le> MAX_BALANCE"
  using round4_capped [of x]
  by (auto simp: CAST_DECIMAL_16_4_def Let_def split: if_splits)

lemma update_charge_capped:
  "balances_capped d \<Longrightarrow> update_charge a uid d = Inr (d2, rows) \<Longrightarrow> balances_capped d2"
  by (auto simp: update_charge_def balances_capped_def Let_def charged_balance_def list_all_iff
      split: option.splits if_splits)

lemma POST_capped:
  assumes "balances_capped d" and "POST encode inlet e d req = (d', resp)"
  shows "balances_capped d'"
proof (cases resp)
  case (Failure err)
  with assms show ?thesis
    by (auto dest: POST_Failure_unchanged)
next
  case (Success r)
  with assms(2) have "POST encode inlet e d req = (d', Success r)"
    by simp
  then obtain a uid d2 rows rec where
    u: "update_charge a uid d = Inr (d2, rows)" and d': "d' = insert_usage_record rec d2"
    by (elim POST_Success_cases) auto
  from update_charge_capped [OF assms(1) u] show ?thesis
    by (simp add: d' insert_usage_record_def balances_capped_def)
qed

lemma POST_Success_users:
  assumes "POST encode inlet e d (Some data) = (d', Success r)"
  shows "\<exists>c. CAST_DECIMAL_16_4 (r_totalCost r - inlet (model data)) = Some c \<and>
          users d' = map (\<lambda>u. if u_id u = req_user_id data
                               then u\<lparr>u_balance := min (u_balance u - c) MAX_BALANCE\<rparr> else u)
                         (users d)"
proof -
  from assms obtain price inTok outTok src d2 nb rest where
    u: "update_charge (totalCost_of price inTok outTok - inlet (model data))
          (req_user_id data) d = Inr (d2, nb # rest)" and
    d': "d' = insert_usage_record
            \<lparr>user_id = req_user_id data, nickname = userName_of data,
             model_name = model data, input_tokens = inTok, output_tokens = outTok,
             cost = totalCost_of price inTok outTok, balance_after = nb\<rparr> d2" and
    r: "r = \<lparr>r_inputTokens = inTok, r_outputTokens = outTok,
          r_totalCost = totalCost_of price inTok outTok, r_newBalance = nb\<rparr>"
    by (elim POST_Success_cases) auto
  from u obtain c where
    "CAST_DECIMAL_16_4 (totalCost_of price inTok outTok - inlet (model data)) = Some c"
    "users d2 =
       map (\<lambda>u. if u_id u = req_user_id data then u\<lparr>u_balance := charged_balance c u\<rparr> else u)
         (users d)"
    by (rule update_charge_tables)
  then show ?thesis
    by (auto simp: d' r insert_usage_record_def charged_balance_def)
qed

lemma updateUserBalance_capped:
  "balances_capped d \<Longrightarrow> updateUserBalance uid v d = Inr (d', b) \<Longrightarrow>
     balances_capped d' \<and> b \<le> MAX_BALANCE"
  by (auto simp: updateUserBalance_def balances_capped_def list_all_iff
      split: if_splits option.splits list.splits)

lemma updateUserBalance_rejects:
  "v > MAX_BALANCE \<Longrightarrow> updateUserBalance uid v d = Inl BalanceExceedsMaximum"
  by (simp add: updateUserBalance_def)

lemma updateUserDefaultBalance_capped:
  "balances_capped d \<Longrightarrow> updateUserDefaultBalance uid v d = Inr (d', b) \<Longrightarrow>
     balances_capped d'"
  by (auto simp: updateUserDefaultBalance_def balances_capped_def list_all_iff
      split: if_splits option.splits list.splits)

lemma getOrCreateUser_capped:
  assumes "balances_capped d" and "init_balance_capped e"
    and "getOrCreateUser e ud d = Inr (d', row)"
  shows "balances_capped d'"
proof -
  from assms(3) obtain x b where x: "parse_or (INIT_BALANCE e) 0 = Some x"
    and b: "CAST_DECIMAL_16_4 x = Some b"
    by (auto simp: getOrCreateUser_def split: option.splits)
  from x assms(2) have "x \<le> MAX_BALANCE"
    by (auto simp: parse_or_def init_balance_capped_def MAX_BALANCE_def split: env_value.splits)
  with b have "b \<le> MAX_BALANCE"
    by (rule CAST_DECIMAL_16_4_capped [rotated])
  with assms(1,3) x b show ?thesis
    by (auto simp: getOrCreateUser_def balances_capped_def list_all_iff Let_def
        split: list.splits)
qed

lemma resetUserBalanceToDefault_capped:
  "balances_capped d \<Longrightarrow> resetUserBalanceToDefault uid d = Inr (d', b) \<Longrightarrow>
     balances_capped d'"
  by (auto simp: resetUserBalanceToDefault_def balances_capped_def list_all_iff reset_row_def
      split: list.splits)

lemma resetAllBalancesToDefault_capped:
  "balances_capped d \<Longrightarrow> balances_capped (fst (resetAllBalancesToDefault d))"
  by (auto simp: resetAllBalancesToDefault_def balances_capped_def list_all_iff reset_row_def)

lemma deleteUser_capped:
  "balances_capped d \<Longrightarrow> balances_capped (deleteUser uid d)"
  by (auto simp: deleteUser_def balances_capped_def list_all_iff)

lemma example_db_capped: "balances_capped example_db"
  by (simp add: balances_capped_def example_db_def example_user_def rich_user_def
      MAX_BALANCE_def)

lemma tiny_inlet_charge:
  "POST char_tokenizer tiny_inlet example_env example_db (Some example_request) =
     (example_db
        \<lparr>users := [example_user\<lparr>u_balance := 19999 / 200\<rparr>, rich_user],
         user_usage_records :=
           [\<lparr>user_id = ''u1'', nickname = ''Ann'', model_name = ''m1'',
             input_tokens = 1000, output_tokens = 500, cost = 1 / 200,
             balance_after = 19999 / 200\<rparr>]\<rparr>,
      Success \<lparr>r_inputTokens = 1000, r_outputTokens = 500, r_totalCost = 1 / 200,
               r_newBalance = 19999 / 200\<rparr>)"
  by code_simp

lemma credited_charge:
  "POST char_tokenizer unit_inlet example_env example_db (Some example_request) =
     (example_db
        \<lparr>users := [example_user\<lparr>u_balance := 20199 / 200\<rparr>, rich_user],
         user_usage_records :=
           [\<lparr>user_id = ''u1'', nickname = ''Ann'', model_name = ''m1'',
             input_tokens = 1000, output_tokens = 500, cost = 1 / 200,
             balance_after = 20199 / 200\<rparr>]\<rparr>,
      Success \<lparr>r_inputTokens = 1000, r_outputTokens = 500, r_totalCost = 1 / 200,
               r_newBalance = 20199 / 200\<rparr>)"
  by code_simp

lemma uncapped_creation:
  "getOrCreateUser (example_env\<lparr>INIT_BALANCE := Numeric 2000000\<rparr>) new_user_data example_db =
     Inr (example_db\<lparr>users := [example_user, rich_user, new_user_row]\<rparr>, new_user_row)"
  by code_simp

text \<open>
  C5, as the claim states it, fails on the code. A charge whose net cost is a refund of 1,
  for a user whose balance is 999999.9999, would bring the balance to 1000000.9999; the
  charge is not rejected but commits, with the balance held at the ceiling by the
  \<open>LEAST\<close> of the update. And \<open>getOrCreateUser\<close> writes an \<open>INIT_BALANCE\<close> of 2000000
  as it is.
\<close>

theorem charge_over_ceiling_commits:
  "u_balance rich_user - (0 - unit_inlet (model refund_request)) > MAX_BALANCE \<and>
   snd (POST char_tokenizer unit_inlet example_env example_db (Some refund_request)) =
     Success \<lparr>r_inputTokens = 1000, r_outputTokens = 500, r_totalCost = 0,
              r_newBalance = 9999999999 / 10000\<rparr> \<and>
   users (fst (POST char_tokenizer unit_inlet example_env example_db (Some refund_request))) =
     users example_db \<and>
   getOrCreateUser (example_env\<lparr>INIT_BALANCE := Numeric 2000000\<rparr>) new_user_data example_db =
     Inr (example_db\<lparr>users := [example_user, rich_user, new_user_row]\<rparr>, new_user_row) \<and>
   u_balance new_user_row > MAX_BALANCE"
  by (simp add: refund_charge uncapped_creation rich_user_def unit_inlet_def MAX_BALANCE_def
      new_user_row_def)

text \<open>
  C5, amended. If every balance and every default balance of the user table is at most
  999999.9999, then so it is after every mutation of the table: a charge, committed or
  failed; \<open>updateUserBalance\<close>; \<open>updateUserDefaultBalance\<close>; \<open>getOrCreateUser\<close> when the
  configured \<open>INIT_BALANCE\<close> is at most the ceiling; the reset of one user and of all
  users; \<open>deleteUser\<close>. \<open>updateUserBalance\<close> rejects a value above the ceiling. A charge
  does not reject: a committed charge has stored, for the rows of its user,
  \<open>min (balance - c) 999999.9999\<close>, where \<open>c\<close> is the net cost rounded to four decimals.
\<close>

theorem balance_ceiling_preserved:
  assumes "balances_capped d"
  shows "(POST encode inlet e d req = (d', resp) \<longrightarrow> balances_capped d') \<and>
         (POST encode inlet e d (Some data) = (d', Success r) \<longrightarrow>
            (\<exists>c. CAST_DECIMAL_16_4 (r_totalCost r - inlet (model data)) = Some c \<and>
                 users d' =
                   map (\<lambda>u. if u_id u = req_user_id data
                             then u\<lparr>u_balance := min (u_balance u - c) MAX_BALANCE\<rparr> else u)
                     (users d))) \<and>
         (updateUserBalance uid v d = Inr (d', b) \<longrightarrow> balances_capped d' \<and> b \<le> MAX_BALANCE) \<and>
         (v > MAX_BALANCE \<longrightarrow> updateUserBalance uid v d = Inl BalanceExceedsMaximum) \<and>
         (updateUserDefaultBalance uid v d = Inr (d', b) \<longrightarrow> balances_capped d') \<and>
         (init_balance_capped e \<and> getOrCreateUser e ud d = Inr (d', row) \<longrightarrow>
            balances_capped d') \<and>
         (resetUserBalanceToDefault uid d = Inr (d', b) \<longrightarrow> balances_capped d') \<and>
         balances_capped (fst (resetAllBalancesToDefault d)) \<and>
         balances_capped (deleteUser uid d)"
proof -
  have "POST encode inlet e d req = (d', resp) \<longrightarrow> balances_capped d'"
    using assms by (auto dest: POST_capped)
  moreover have "POST encode inlet e d (Some data) = (d', Success r) \<longrightarrow>
            (\<exists>c. CAST_DECIMAL_16_4 (r_totalCost r - inlet (model data)) = Some c \<and>
                 users d' =
                   map (\<lambda>u. if u_id u = req_user_id data
                             then u\<lparr>u_balance := min (u_balance u - c) MAX_BALANCE\<rparr> else u)
                     (users d))"
    using POST_Success_users by blast
  moreover have "updateUserBalance uid v d = Inr (d', b) \<longrightarrow>
      balances_capped d' \<and> b \<le> MAX_BALANCE"
    using assms updateUserBalance_capped by blast
  moreover have "v > MAX_BALANCE \<longrightarrow> updateUserBalance uid v d = Inl BalanceExceedsMaximum"
    by (simp add: updateUserBalance_rejects)
  moreover have "updateUserDefaultBalance uid v d = Inr (d', b) \<longrightarrow> balances_capped d'"
    using assms updateUserDefaultBalance_capped by blast
  moreover have "init_balance_capped e \<and> getOrCreateUser e ud d = Inr (d', row) \<longrightarrow>
      balances_capped d'"
    using assms getOrCreateUser_capped by blast
  moreover have "resetUserBalanceToDefault uid d = Inr (d', b) \<longrightarrow> balances_capped d'"
    using assms resetUserBalanceToDefault_capped by blast
  moreover have "balances_capped (fst (resetAllBalancesToDefault d))"
    using assms by (rule resetAllBalancesToDefault_capped)
  moreover have "balances_capped (deleteUser uid d)"
    using assms by (rule deleteUser_capped)
  ultimately show ?thesis
    by blast
qed

text \<open>
  On the example table, whose richest balance is the ceiling itself: the table after the
  refund keeps the bound, and setting a balance to 1000000 is rejected.
\<close>

theorem balance_ceiling_preserved_witness:
  "balances_capped example_db \<and>
   balances_capped
     (fst (POST char_tokenizer unit_inlet example_env example_db (Some refund_request))) \<and>
   updateUserBalance ''u1'' 1000000 example_db = Inl BalanceExceedsMaximum"
proof -
  note t = balance_ceiling_preserved [OF example_db_capped,
      of char_tokenizer unit_inlet example_env "Some refund_request"
         "fst (POST char_tokenizer unit_inlet example_env example_db (Some refund_request))"
         "snd (POST char_tokenizer unit_inlet example_env example_db (Some refund_request))"
         _ _ "''u1''" 1000000]
  have "(1000000::rat) > MAX_BALANCE"
    by (simp add: MAX_BALANCE_def)
  with t example_db_capped show ?thesis
    by simp
qed

section \<open>The recorded cost and the change of the balance\<close>

text \<open>
  C10, as the claim states it, fails on the code. With an inlet cost of 1 and a balance at
  the ceiling, the charge records the cost 0 and the balance does not change: the recorded
  cost equals the change of the balance. With an inlet cost of 0.00001 the charge records
  0.005 and the balance falls by 0.005, the net cost 0.00499 rounded to four decimals.
\<close>

theorem recorded_cost_equals_balance_change:
  "unit_inlet (model refund_request) \<noteq> 0 \<and>
   map cost (user_usage_records
     (fst (POST char_tokenizer unit_inlet example_env example_db (Some refund_request)))) = [0] \<and>
   map u_balance (users
     (fst (POST char_tokenizer unit_inlet example_env example_db (Some refund_request)))) =
     map u_balance (users example_db) \<and>
   tiny_inlet (model example_request) \<noteq> 0 \<and>
   map cost (user_usage_records
     (fst (POST char_tokenizer tiny_inlet example_env example_db (Some example_request)))) =
     [1 / 200] \<and>
   map u_balance (users
     (fst (POST char_tokenizer tiny_inlet example_env example_db (Some example_request)))) =
     [u_balance example_user - 1 / 200, u_balance rich_user]"
proof -
  have "users (example_db\<lparr>user_usage_records :=
           [\<lparr>user_id = ''u2'', nickname = ''Bob'', model_name = ''m2'',
             input_tokens = 1000, output_tokens = 500, cost = 0,
             balance_after = 9999999999 / 10000\<rparr>]\<rparr>) = users example_db"
    by simp
  then show ?thesis
    by (simp add: refund_charge tiny_inlet_charge unit_inlet_def tiny_inlet_def
        example_user_def rich_user_def)
qed

text \<open>
  C10, amended. A committed charge records the gross total cost, and sets the balance of
  its user to \<open>min (balance - c) 999999.9999\<close>, where \<open>c\<close> is the net cost
  \<open>total_cost - inlet_cost\<close> rounded to four decimals. Hence whenever the inlet cost is at
  least 0.0001 in absolute value and the ceiling does not bind, the recorded cost differs
  from the change of the balance.
\<close>

theorem recorded_cost_gross_balance_net:
  assumes "POST encode inlet e d (Some data) = (d', Success r)"
  shows "\<exists>rec c. user_usage_records d' = user_usage_records d @ [rec] \<and>
           cost rec = r_totalCost r \<and>
           CAST_DECIMAL_16_4 (r_totalCost r - inlet (model data)) = Some c \<and>
           users d' =
             map (\<lambda>u. if u_id u = req_user_id data
                       then u\<lparr>u_balance := min (u_balance u - c) MAX_BALANCE\<rparr> else u)
               (users d) \<and>
           (\<forall>u \<in> set (users d).
              u_id u = req_user_id data \<and> u_balance u - c \<le> MAX_BALANCE \<and>
              \<bar>inlet (model data)\<bar> \<ge> 1 / 10000 \<longrightarrow>
                cost rec \<noteq> u_balance u - min (u_balance u - c) MAX_BALANCE)"
proof -
  from POST_Success_record [OF assms] obtain rec where
    rec: "user_usage_records d' = user_usage_records d @ [rec]" "cost rec = r_totalCost r"
    by blast
  from POST_Success_users [OF assms] obtain c where
    c: "CAST_DECIMAL_16_4 (r_totalCost r - inlet (model data)) = Some c" and
    us: "users d' =
             map (\<lambda>u. if u_id u = req_user_id data
                       then u\<lparr>u_balance := min (u_balance u - c) MAX_BALANCE\<rparr> else u)
               (users d)"
    by blast
  have near: "\<bar>c - (r_totalCost r - inlet (model data))\<bar> \<le> 1 / 20000"
    using c by (rule CAST_DECIMAL_16_4_error)
  have "\<forall>u \<in> set (users d).
          u_id u = req_user_id data \<and> u_balance u - c \<le> MAX_BALANCE \<and>
          \<bar>inlet (model data)\<bar> \<ge> 1 / 10000 \<longrightarrow>
            cost rec \<noteq> u_balance u - min (u_balance u - c) MAX_BALANCE"
  proof (intro ballI impI)
    fix u
    assume h: "u_id u = req_user_id data \<and> u_balance u - c \<le> MAX_BALANCE \<and>
               \<bar>inlet (model data)\<bar> \<ge> 1 / 10000"
    then have "u_balance u - min (u_balance u - c) MAX_BALANCE = c"
      by simp
    moreover from h near have "c \<noteq> r_totalCost r"
      by (auto simp: abs_le_iff)
    ultimately show "cost rec \<noteq> u_balance u - min (u_balance u - c) MAX_BALANCE"
      using rec(2) by simp
  qed
  with rec c us show ?thesis
    by blast
qed

text \<open>
  The charge of the end-to-end example with an inlet cost of 1: the record holds the cost
  0.005, and the balance goes from 100 to 100.995.
\<close>

theorem recorded_cost_gross_balance_net_witness:
  "cost (last (user_usage_records
     (fst (POST char_tokenizer unit_inlet example_env example_db (Some example_request))))) \<noteq>
   u_balance example_user -
   u_balance (hd (users
     (fst (POST char_tokenizer unit_inlet example_env example_db (Some example_request)))))"
proof -
  let ?r = "\<lparr>r_inputTokens = 1000, r_outputTokens = 500, r_totalCost = 1 / 200,
             r_newBalance = 20199 / 200\<rparr>"
  have cast: "CAST_DECIMAL_16_4 (1 / 200 - unit_inlet ''m1'') = Some (- 199 / 200)"
    by code_simp
  from recorded_cost_gross_balance_net [OF credited_charge]
  obtain rec :: usage_record and c where
    rec: "cost rec = r_totalCost ?r" and
    c: "CAST_DECIMAL_16_4 (r_totalCost ?r - unit_inlet (model example_request)) = Some c" and
    ne: "\<forall>u \<in> set (users example_db).
           u_id u = req_user_id example_request \<and> u_balance u - c \<le> MAX_BALANCE \<and>
           \<bar>unit_inlet (model example_request)\<bar> \<ge> 1 / 10000 \<longrightarrow>
             cost rec \<noteq> u_balance u - min (u_balance u - c) MAX_BALANCE"
    by blast
  from c cast have c_val: "c = - 199 / 200"
    by (simp add: example_request_def)
  have mem: "example_user \<in> set (users example_db)"
    by (simp add: example_db_def)
  from bspec [OF ne mem] have "cost rec \<noteq> u_balance example_user -
      min (u_balance example_user - c) MAX_BALANCE"
    by (simp add: c_val example_user_def example_request_def unit_inlet_def MAX_BALANCE_def)
  with rec show ?thesis
    by (simp add: c_val credited_charge example_user_def MAX_BALANCE_def)
qed

section \<open>The claim about the token counts\<close>














section \<open>The claim about the default prices\<close>

lemma getModelPrice_unusable:
  assumes "filter (\<lambda>row. p_id row = modelId) (model_prices d) = []"
    and "unusable_price (DEFAULT_MODEL_INPUT_PRICE e) \<or>
         unusable_price (DEFAULT_MODEL_OUTPUT_PRICE e)"
  shows "getModelPrice e d modelId = None"
  using assms
  by (auto simp: getModelPrice_def unusable_price_def parse_or_def split: env_value.splits)

lemma getModelPrice_default:
  assumes "filter (\<lambda>row. p_id row = modelId) (model_prices d) = []"
    and "\<not> unusable_price (DEFAULT_MODEL_INPUT_PRICE e)"
    and "\<not> unusable_price (DEFAULT_MODEL_OUTPUT_PRICE e)"
  shows "getModelPrice e d modelId =
           Some \<lparr>p_id = modelId, p_name = modelId,
                 input_price = price_setting (DEFAULT_MODEL_INPUT_PRICE e),
                 output_price = price_setting (DEFAULT_MODEL_OUTPUT_PRICE e),
                 per_msg_price = - 1\<rparr>"
  using assms
  by (auto simp: getModelPrice_def unusable_price_def price_setting_def parse_or_def
      split: env_value.splits)

text \<open>
  C6, as the claim states it, fails on the code. With both default prices missing from the
  environment, the price of a model that has no stored record is not \<open>NOT_FOUND\<close>: the
  source reads a missing setting as the text \<open>60\<close>, and the record it makes has the prices
  60 and 60.
\<close>

theorem missing_defaults_resolve:
  "DEFAULT_MODEL_INPUT_PRICE example_env = Missing \<and>
   DEFAULT_MODEL_OUTPUT_PRICE example_env = Missing \<and>
   filter (\<lambda>row. p_id row = ''m9'') (model_prices example_db) = [] \<and>
   getModelPrice example_env example_db ''m9'' =
     Some \<lparr>p_id = ''m9'', p_name = ''m9'', input_price = 60, output_price = 60,
           per_msg_price = - 1\<rparr>"
  by (simp add: getModelPrice_def parse_or_def example_env_def example_db_def
      example_price_def flat_price_def)

text \<open>
  C6, amended. For every model identifier with no stored price record, price resolution
  returns \<open>NOT_FOUND\<close>, and the charge fails with it and changes nothing, if either of the
  two default prices of the environment is not a number or is negative. Otherwise it makes
  a record of the two settings, a missing one read as 60, with per-token pricing (the
  per-message price is \<open>-1\<close>).
\<close>

theorem default_price_resolution:
  assumes "filter (\<lambda>row. p_id row = modelId) (model_prices d) = []"
  shows "(unusable_price (DEFAULT_MODEL_INPUT_PRICE e) \<or>
          unusable_price (DEFAULT_MODEL_OUTPUT_PRICE e) \<longrightarrow>
            getModelPrice e d modelId = None \<and>
            (model data = modelId \<longrightarrow>
               POST encode inlet e d (Some data) = (d, Failure PriceNotFound))) \<and>
         (\<not> unusable_price (DEFAULT_MODEL_INPUT_PRICE e) \<and>
          \<not> unusable_price (DEFAULT_MODEL_OUTPUT_PRICE e) \<longrightarrow>
            getModelPrice e d modelId =
              Some \<lparr>p_id = modelId, p_name = modelId,
                    input_price = price_setting (DEFAULT_MODEL_INPUT_PRICE e),
                    output_price = price_setting (DEFAULT_MODEL_OUTPUT_PRICE e),
                    per_msg_price = - 1\<rparr>)"
proof -
  have "unusable_price (DEFAULT_MODEL_INPUT_PRICE e) \<or>
        unusable_price (DEFAULT_MODEL_OUTPUT_PRICE e) \<longrightarrow>
          getModelPrice e d modelId = None \<and>
          (model data = modelId \<longrightarrow>
             POST encode inlet e d (Some data) = (d, Failure PriceNotFound))"
    using getModelPrice_unusable [OF assms] POST_price_not_found [of e d data encode inlet]
    by auto
  moreover have "\<not> unusable_price (DEFAULT_MODEL_INPUT_PRICE e) \<and>
        \<not> unusable_price (DEFAULT_MODEL_OUTPUT_PRICE e) \<longrightarrow>
          getModelPrice e d modelId =
            Some \<lparr>p_id = modelId, p_name = modelId,
                  input_price = price_setting (DEFAULT_MODEL_INPUT_PRICE e),
                  output_price = price_setting (DEFAULT_MODEL_OUTPUT_PRICE e),
                  per_msg_price = - 1\<rparr>"
    using getModelPrice_default [OF assms] by blast
  ultimately show ?thesis
    by blast
qed

text \<open>
  A model without a stored record: a negative input price and a text for the output price
  each give \<open>NOT_FOUND\<close>; the prices 3 and 4 give a record.
\<close>

theorem default_price_resolution_witness:
  "getModelPrice (env_with_prices (Numeric (- 5)) Missing) example_db ''m9'' = None \<and>
   getModelPrice (env_with_prices (Numeric 3) NonNumeric) example_db ''m9'' = None \<and>
   getModelPrice (env_with_prices (Numeric 3) (Numeric 4)) example_db ''m9'' =
     Some \<lparr>p_id = ''m9'', p_name = ''m9'', input_price = 3, output_price = 4,
           per_msg_price = - 1\<rparr>"
proof -
  have no_row: "filter (\<lambda>row. p_id row = ''m9'') (model_prices example_db) = []"
    by (simp add: example_db_def example_price_def flat_price_def)
  have "getModelPrice (env_with_prices (Numeric (- 5)) Missing) example_db ''m9'' = None"
    using default_price_resolution [OF no_row, of "env_with_prices (Numeric (- 5)) Missing"]
    by (simp add: env_with_prices_def unusable_price_def)
  moreover
  have "getModelPrice (env_with_prices (Numeric 3) NonNumeric) example_db ''m9'' = None"
    using default_price_resolution [OF no_row, of "env_with_prices (Numeric 3) NonNumeric"]
    by (simp add: env_with_prices_def unusable_price_def)
  moreover
  have "getModelPrice (env_with_prices (Numeric 3) (Numeric 4)) example_db ''m9'' =
     Some \<lparr>p_id = ''m9'', p_name = ''m9'', input_price = 3, output_price = 4,
           per_msg_price = - 1\<rparr>"
    using default_price_resolution [OF no_row, of "env_with_prices (Numeric 3) (Numeric 4)"]
    by (simp add: env_with_prices_def unusable_price_def price_setting_def)
  ultimately show ?thesis
    by blast
qed

section \<open>The claims about the reset scheduler\<close>

lemma lastDayOfMonth_gregorian:
  "100 \<le> y \<Longrightarrow> day (new_Date_day0 y (m + 1)) = days_in_month y m"
  by (simp add: new_Date_day0_def constructor_year_def)

lemma getEffectiveResetDay_min:
  assumes "valid_date dt" and "getConfiguredResetDay e = Some c"
  shows "getEffectiveResetDay e dt = Some (min c (days_in_month (year dt) (month dt)))"
  using assms
  by (simp add: getEffectiveResetDay_def valid_date_def lastDayOfMonth_gregorian)

lemma days_in_month_ge: "28 \<le> days_in_month y m"
  by (simp add: days_in_month_def)

text \<open>
  Why \<open>valid_date\<close> asks for a year of at least 100: February of the year 0 has 29 days
  in the calendar of \<open>Date\<close>, but the constructor reads the year 0 as 1900, whose
  February has 28. No other month of the years 0 to 99 differs. The scheduler and the
  route pass \<open>new Date()\<close>, the present time.
\<close>

lemma lastDayOfMonth_year_0:
  "days_in_month 0 1 = 29 \<and> day (new_Date_day0 0 (1 + 1)) = 28"
  by (simp add: new_Date_day0_def constructor_year_def days_in_month_def leap_year_def)

text \<open>
  C7. For every date, the effective reset day is the minimum of the configured reset day
  and the last day of the date's month. For the configured day 31 it is 28 in a February
  of 28 days, 30 in April and 31 in a month of 31 days. A date is one the running system
  holds (\<open>valid_date\<close>: a month from 0 to 11, a day of that month, a year that the
  constructor of \<open>Date\<close> reads as it is), and the configured day is a number, clamped
  into 1 to 31 by \<open>getConfiguredResetDay\<close>.
\<close>

theorem effective_reset_day_min:
  assumes "valid_date dt" and "getConfiguredResetDay e = Some c"
  shows "getEffectiveResetDay e dt = Some (min c (days_in_month (year dt) (month dt))) \<and>
         (c = 31 \<and> month dt = 1 \<and> days_in_month (year dt) (month dt) = 28 \<longrightarrow>
            getEffectiveResetDay e dt = Some 28) \<and>
         (c = 31 \<and> month dt = 3 \<longrightarrow> getEffectiveResetDay e dt = Some 30) \<and>
         (c = 31 \<and> days_in_month (year dt) (month dt) = 31 \<longrightarrow>
            getEffectiveResetDay e dt = Some 31)"
proof -
  note eff = getEffectiveResetDay_min [OF assms]
  have "c = 31 \<and> month dt = 1 \<and> days_in_month (year dt) (month dt) = 28 \<longrightarrow>
            getEffectiveResetDay e dt = Some 28"
    by (auto simp: eff)
  moreover have "c = 31 \<and> month dt = 3 \<longrightarrow> getEffectiveResetDay e dt = Some 30"
    by (simp add: eff days_in_month_def)
  moreover have "c = 31 \<and> days_in_month (year dt) (month dt) = 31 \<longrightarrow>
            getEffectiveResetDay e dt = Some 31"
    by (simp add: eff)
  ultimately show ?thesis
    using eff by blast
qed

text \<open>
  The configured day 31 on 10 February 2023, on 10 February 2024 (a leap year), on 10 April
  2024 and on 10 January 2024.
\<close>

theorem effective_reset_day_min_witness:
  "getEffectiveResetDay (env_with_day (Numeric 31)) \<lparr>year = 2023, month = 1, day = 10\<rparr>
     = Some 28 \<and>
   getEffectiveResetDay (env_with_day (Numeric 31)) \<lparr>year = 2024, month = 1, day = 10\<rparr>
     = Some 29 \<and>
   getEffectiveResetDay (env_with_day (Numeric 31)) \<lparr>year = 2024, month = 3, day = 10\<rparr>
     = Some 30 \<and>
   getEffectiveResetDay (env_with_day (Numeric 31)) \<lparr>year = 2024, month = 0, day = 10\<rparr>
     = Some 31"
proof -
  have cfg: "getConfiguredResetDay (env_with_day (Numeric 31)) = Some 31"
    by (simp add: getConfiguredResetDay_def env_with_day_def parse_or_def)
  have v: "valid_date \<lparr>year = 2023, month = 1, day = 10\<rparr>"
          "valid_date \<lparr>year = 2024, month = 1, day = 10\<rparr>"
          "valid_date \<lparr>year = 2024, month = 3, day = 10\<rparr>"
          "valid_date \<lparr>year = 2024, month = 0, day = 10\<rparr>"
    by (simp_all add: valid_date_def days_in_month_def leap_year_def)
  from effective_reset_day_min [OF v(1) cfg] effective_reset_day_min [OF v(2) cfg]
       effective_reset_day_min [OF v(3) cfg] effective_reset_day_min [OF v(4) cfg]
  show ?thesis
    by (simp add: days_in_month_def leap_year_def)
qed

lemma shouldAutoResetNow_iff:
  "shouldAutoResetNow e d dt \<longleftrightarrow>
     isAutoResetEnabled e \<and>
     \<not> (\<exists>r. getEffectiveResetDay e dt = Some r \<and> day dt < r) \<and>
     \<not> (\<exists>l. getLastResetDate d = Some l \<and> month l = month dt \<and> year l = year dt)"
  by (auto simp: shouldAutoResetNow_def Let_def split: option.splits)

lemma configured_one:
  "parse_or (BALANCE_RESET_DAY e) 1 = Some 1 \<Longrightarrow>
     isAutoResetEnabled e \<and> getConfiguredResetDay e = Some 1"
  by (simp add: isAutoResetEnabled_def getConfiguredResetDay_def)

lemma catch_up:
  assumes "parse_or (BALANCE_RESET_DAY e) 1 = Some 1" and "valid_date dt"
    and "getLastResetDate d = Some l" and "month_index l + 2 = month_index dt"
  shows "shouldAutoResetNow e d dt"
proof -
  from configured_one [OF assms(1)] have en: "isAutoResetEnabled e"
    and cfg: "getConfiguredResetDay e = Some 1"
    by simp_all
  from getEffectiveResetDay_min [OF assms(2) cfg] days_in_month_ge [of "year dt" "month dt"]
  have "getEffectiveResetDay e dt = Some 1"
    by simp
  moreover from assms(2) have "1 \<le> day dt"
    by (simp add: valid_date_def)
  moreover have "\<not> (month l = month dt \<and> year l = year dt)"
  proof
    assume "month l = month dt \<and> year l = year dt"
    then have "month_index l = month_index dt"
      by (simp add: month_index_def)
    with assms(4) show False
      by simp
  qed
  ultimately show ?thesis
    using en assms(3) by (simp add: shouldAutoResetNow_iff)
qed

text \<open>
  C4. For every date, \<open>shouldAutoResetNow\<close> is false if auto-reset is disabled; false if
  the day of the month is less than the effective reset day; false if the last reset that
  is stored falls in the same calendar month and year as the date; and true otherwise. In
  particular, if the last reset is from two months ago and the reset day is configured as
  1, it is true on any day of the current month.
\<close>

theorem should_reset_now_rule:
  "(\<not> isAutoResetEnabled e \<longrightarrow> \<not> shouldAutoResetNow e d dt) \<and>
   (getEffectiveResetDay e dt = Some r \<and> day dt < r \<longrightarrow> \<not> shouldAutoResetNow e d dt) \<and>
   (getLastResetDate d = Some l \<and> month l = month dt \<and> year l = year dt \<longrightarrow>
      \<not> shouldAutoResetNow e d dt) \<and>
   (isAutoResetEnabled e \<and>
    \<not> (\<exists>r. getEffectiveResetDay e dt = Some r \<and> day dt < r) \<and>
    \<not> (\<exists>l. getLastResetDate d = Some l \<and> month l = month dt \<and> year l = year dt) \<longrightarrow>
      shouldAutoResetNow e d dt) \<and>
   (parse_or (BALANCE_RESET_DAY e) 1 = Some 1 \<and> valid_date dt \<and>
    getLastResetDate d = Some l \<and> month_index l + 2 = month_index dt \<longrightarrow>
      shouldAutoResetNow e d dt)"
proof -
  have "\<not> isAutoResetEnabled e \<longrightarrow> \<not> shouldAutoResetNow e d dt"
    by (simp add: shouldAutoResetNow_iff)
  moreover have "getEffectiveResetDay e dt = Some r \<and> day dt < r \<longrightarrow>
      \<not> shouldAutoResetNow e d dt"
    by (simp add: shouldAutoResetNow_iff)
  moreover have "getLastResetDate d = Some l \<and> month l = month dt \<and> year l = year dt \<longrightarrow>
      \<not> shouldAutoResetNow e d dt"
    by (simp add: shouldAutoResetNow_iff)
  moreover have "isAutoResetEnabled e \<and>
    \<not> (\<exists>r. getEffectiveResetDay e dt = Some r \<and> day dt < r) \<and>
    \<not> (\<exists>l. getLastResetDate d = Some l \<and> month l = month dt \<and> year l = year dt) \<longrightarrow>
      shouldAutoResetNow e d dt"
    by (simp add: shouldAutoResetNow_iff)
  moreover have "parse_or (BALANCE_RESET_DAY e) 1 = Some 1 \<and> valid_date dt \<and>
    getLastResetDate d = Some l \<and> month_index l + 2 = month_index dt \<longrightarrow>
      shouldAutoResetNow e d dt"
    using catch_up by blast
  ultimately show ?thesis
    by blast
qed

text \<open>
  With the reset day 1 and the last reset on 15 January 2024: the check is true on 20 March
  2024, two months later, and false on 20 January 2024; with the reset day 25 it is false
  on 20 March 2024; with auto-reset disabled (day 0) it is false.
\<close>

theorem should_reset_now_rule_witness:
  "shouldAutoResetNow (env_with_day (Numeric 1))
     (example_db\<lparr>last_balance_reset := Some \<lparr>year = 2024, month = 0, day = 15\<rparr>\<rparr>)
     \<lparr>year = 2024, month = 2, day = 20\<rparr> \<and>
   \<not> shouldAutoResetNow (env_with_day (Numeric 1))
     (example_db\<lparr>last_balance_reset := Some \<lparr>year = 2024, month = 0, day = 15\<rparr>\<rparr>)
     \<lparr>year = 2024, month = 0, day = 20\<rparr> \<and>
   \<not> shouldAutoResetNow (env_with_day (Numeric 25))
     (example_db\<lparr>last_balance_reset := Some \<lparr>year = 2024, month = 0, day = 15\<rparr>\<rparr>)
     \<lparr>year = 2024, month = 2, day = 20\<rparr> \<and>
   \<not> shouldAutoResetNow (env_with_day (Numeric 0))
     (example_db\<lparr>last_balance_reset := Some \<lparr>year = 2024, month = 0, day = 15\<rparr>\<rparr>)
     \<lparr>year = 2024, month = 2, day = 20\<rparr>"
proof -
  let ?d = "example_db\<lparr>last_balance_reset := Some \<lparr>year = 2024, month = 0, day = 15\<rparr>\<rparr>"
  let ?jan = "\<lparr>year = 2024, month = 0, day = 15\<rparr>"
  let ?mar20 = "\<lparr>year = 2024, month = 2, day = 20\<rparr>"
  let ?jan20 = "\<lparr>year = 2024, month = 0, day = 20\<rparr>"
  have last: "getLastResetDate ?d = Some ?jan"
    by (simp add: getLastResetDate_def)
  have v: "valid_date ?mar20"
    by (simp add: valid_date_def days_in_month_def)
  have one: "parse_or (BALANCE_RESET_DAY (env_with_day (Numeric 1))) 1 = Some 1"
    by (simp add: env_with_day_def parse_or_def)
  have two: "month_index ?jan + 2 = month_index ?mar20"
    by (simp add: month_index_def)
  have eff: "getEffectiveResetDay (env_with_day (Numeric 25)) ?mar20 = Some 25"
    by (simp add: getEffectiveResetDay_def getConfiguredResetDay_def env_with_day_def
        parse_or_def new_Date_day0_def constructor_year_def days_in_month_def)
  have off: "\<not> isAutoResetEnabled (env_with_day (Numeric 0))"
    by (simp add: isAutoResetEnabled_def env_with_day_def parse_or_def)
  from should_reset_now_rule [of "env_with_day (Numeric 1)" ?d ?mar20 _ ?jan] one v last two
  have "shouldAutoResetNow (env_with_day (Numeric 1)) ?d ?mar20"
    by blast
  moreover
  from should_reset_now_rule [of "env_with_day (Numeric 1)" ?d ?jan20 _ ?jan] last
  have "\<not> shouldAutoResetNow (env_with_day (Numeric 1)) ?d ?jan20"
    by simp
  moreover
  from should_reset_now_rule [of "env_with_day (Numeric 25)" ?d ?mar20 25 ?jan] eff
  have "\<not> shouldAutoResetNow (env_with_day (Numeric 25)) ?d ?mar20"
    by simp
  moreover
  from should_reset_now_rule [of "env_with_day (Numeric 0)" ?d ?mar20] off
  have "\<not> shouldAutoResetNow (env_with_day (Numeric 0)) ?d ?mar20"
    by blast
  ultimately show ?thesis
    by blast
qed

section \<open>The claim about the forced reset of one user\<close>









end
